theory Spec2Isabelle
  imports Main "HOL-Library.Word"
begin

section \<open>The Aniki treasury contract (module aniki::treasury)\<close>

text \<open>
  A shallow embedding of \<^verbatim>\<open>move/aniki_treasury/sources/treasury.move\<close>.

  \<^item> \<^verbatim>\<open>u64\<close> and \<^verbatim>\<open>u8\<close> are machine words. Move arithmetic does not wrap: an addition that
    overflows, a subtraction that underflows and a cast that does not fit abort the
    transaction, so each of them is a branch returning \<open>ArithmeticError\<close>.
  \<^item> \<^verbatim>\<open>address\<close> and object \<^verbatim>\<open>ID\<close> are 32-byte values.
  \<^item> A \<^verbatim>\<open>Table\<close> is a partial map; \<^verbatim>\<open>table::add\<close> aborts on a key that is present.
  \<^item> An abort is the value \<open>Inl\<close>; it carries no state, because the Move runtime discards
    every effect of an aborted transaction.
  \<^item> The two shared objects a call receives (\<^verbatim>\<open>Treasury\<close>, \<^verbatim>\<open>TreasuryBalance\<close>) together with
    the events emitted and the coins sent form the record \<open>world\<close>, passed explicitly.
  \<^item> The \<^verbatim>\<open>id: UID\<close> fields of the capabilities and of the balance object are object
    identities minted by the runtime (\<^verbatim>\<open>object::new\<close>); no function of the module reads
    them and they are left out. The treasury's own id, which every binding check compares,
    is kept.
\<close>

type_synonym u64 = "64 word"
type_synonym u8 = "8 word"
type_synonym address = "256 word"
type_synonym ID = "256 word"
type_synonym String = string

subsection \<open>Error codes and aborts\<close>

definition E_NOT_AUTHORIZED :: u64 where "E_NOT_AUTHORIZED = 0"
definition E_INSUFFICIENT_BALANCE :: u64 where "E_INSUFFICIENT_BALANCE = 1"
definition E_INVALID_THRESHOLD :: u64 where "E_INVALID_THRESHOLD = 2"
definition E_EMERGENCY_MODE_ACTIVE :: u64 where "E_EMERGENCY_MODE_ACTIVE = 3"
definition E_COLD_WALLET_APPROVAL_REQUIRED :: u64 where "E_COLD_WALLET_APPROVAL_REQUIRED = 4"
definition E_MULTISIG_THRESHOLD_NOT_MET :: u64 where "E_MULTISIG_THRESHOLD_NOT_MET = 5"
definition E_DAILY_LIMIT_EXCEEDED :: u64 where "E_DAILY_LIMIT_EXCEEDED = 6"
definition E_INVALID_AGENT_ID :: u64 where "E_INVALID_AGENT_ID = 7"

text \<open>
  \<open>Abort c\<close> is a failed \<^verbatim>\<open>assert!(_, c)\<close> of this module. \<open>ArithmeticError\<close> is the
  runtime's abort on overflow, underflow or a cast out of range. \<open>FieldAlreadyExists\<close> is
  the abort of \<^verbatim>\<open>sui::table::add\<close> on a key that is already in the table.
\<close>

datatype abort = Abort u64 | ArithmeticError | FieldAlreadyExists

subsection \<open>Structs\<close>

text \<open>
  The fields are those of the Move structs, in their order. A field name that several
  structs share carries a prefix here (\<open>al_\<close>, \<open>pa_\<close>, \<open>t_\<close>, \<open>tb_\<close>, \<open>ac_\<close>, \<open>cap_\<close>), since
  record fields are constants of one name space. A \<^verbatim>\<open>Balance<SUI>\<close> and a \<^verbatim>\<open>Coin<SUI>\<close> are
  their \<^verbatim>\<open>u64\<close> value.
\<close>

record AgentAllocation =
  al_agent_id :: String
  allocated_amount :: u64
  spent_amount :: u64
  security_level :: u8
  al_created_at :: u64
  al_expires_at :: u64

record PendingApproval =
  pa_id :: u64
  pa_amount :: u64
  pa_recipient :: address
  approvals :: "address list"
  required_approvals :: u8
  pa_created_at :: u64
  pa_expires_at :: u64
  pa_memo :: String

record Treasury =
  t_id :: ID
  admin :: address
  cold_wallet :: address
  hot_wallet :: address
  cold_threshold :: u64
  hot_threshold :: u64
  emergency_mode :: bool
  multisig_signers :: "address list"
  multisig_threshold :: u8
  daily_limit :: u64
  daily_spent :: u64
  last_reset :: u64
  agent_allocations :: "String \<rightharpoonup> AgentAllocation"
  pending_approvals :: "u64 \<rightharpoonup> PendingApproval"
  approval_counter :: u64

record TreasuryBalance =
  balance :: u64
  tb_treasury_id :: ID

record TreasuryAdminCap =
  ac_treasury_id :: ID

record AgentCap =
  cap_agent_id :: String
  cap_treasury_id :: ID
  max_amount :: u64
  cap_expires_at :: u64

subsection \<open>Events\<close>

text \<open>The constructor arguments are the fields of the Move event struct, in its order.\<close>

datatype event =
    TreasuryCreated ID address u64 u64
  | AgentAllocated ID String u64 u8
  | FundsTransferred ID address u64 u8 "u64 option"
  | EmergencyActivated ID String address
  | ApprovalRequested ID u64 u64 address u8
  | ApprovalProvided ID u64 address u64

subsection \<open>The state a transaction works on\<close>

record world =
  treasury :: Treasury
  balance_obj :: TreasuryBalance
  emitted :: "event list"
  sent :: "(address \<times> u64) list"

subsection \<open>Checked arithmetic\<close>

definition add_overflows :: "u64 \<Rightarrow> u64 \<Rightarrow> bool" where
  "add_overflows a b \<longleftrightarrow> 2 ^ 64 \<le> unat a + unat b"

definition one_day_ms :: u64 where
  "one_day_ms = 86400000"

subsection \<open>Helper functions\<close>

text \<open>
  \<^verbatim>\<open>create_pending_approval\<close>: takes the counter as the id, increments it, stores the
  approval with an expiry 24 hours ahead, emits \<^verbatim>\<open>ApprovalRequested\<close>.
\<close>

definition create_pending_approval ::
  "world \<Rightarrow> u64 \<Rightarrow> address \<Rightarrow> u8 \<Rightarrow> String \<Rightarrow> u64 \<Rightarrow> abort + (u64 \<times> world)" where
  "create_pending_approval w amount recipient required memo now =
    (let t = treasury w;
         approval_id = approval_counter t
     in if add_overflows (approval_counter t) 1 then Inl ArithmeticError
        else if add_overflows now one_day_ms then Inl ArithmeticError
        else
          let approval = \<lparr> pa_id = approval_id, pa_amount = amount, pa_recipient = recipient,
                           approvals = [], required_approvals = required,
                           pa_created_at = now, pa_expires_at = now + one_day_ms,
                           pa_memo = memo \<rparr>
          in if pending_approvals t approval_id \<noteq> None then Inl FieldAlreadyExists
             else Inr (approval_id,
                       w\<lparr> treasury := t\<lparr> approval_counter := approval_counter t + 1,
                                          pending_approvals :=
                                            (pending_approvals t)(approval_id \<mapsto> approval) \<rparr>,
                          emitted := emitted w @
                            [ApprovalRequested (t_id t) approval_id amount recipient required] \<rparr>))"

text \<open>
  \<^verbatim>\<open>execute_transfer\<close>: asserts that the balance covers the amount, takes the coin out of
  the balance and sends it to the recipient. The mode and the approval id are unused
  parameters in the source as well.
\<close>

definition execute_transfer ::
  "world \<Rightarrow> address \<Rightarrow> u64 \<Rightarrow> u8 \<Rightarrow> u64 option \<Rightarrow> abort + world" where
  "execute_transfer w recipient amount approval_mode approval_id =
    (let b = balance_obj w
     in if \<not> (balance b \<ge> amount) then Inl (Abort E_INSUFFICIENT_BALANCE)
        else Inr (w\<lparr> balance_obj := b\<lparr> balance := balance b - amount \<rparr>,
                     sent := sent w @ [(recipient, amount)] \<rparr>))"

text \<open>\<^verbatim>\<open>update_daily_spending\<close>: the lazy roll of the 24-hour window.\<close>

definition update_daily_spending :: "Treasury \<Rightarrow> u64 \<Rightarrow> abort + Treasury" where
  "update_daily_spending t now =
    (if now < last_reset t then Inl ArithmeticError
     else if now - last_reset t \<ge> one_day_ms
          then Inr (t\<lparr> daily_spent := 0, last_reset := now \<rparr>)
          else Inr t)"

subsection \<open>Public functions\<close>

definition initialize_treasury ::
  "address \<Rightarrow> address \<Rightarrow> address \<Rightarrow> u64 \<Rightarrow> u64 \<Rightarrow> u64 \<Rightarrow> address list \<Rightarrow> u8 \<Rightarrow> u64 \<Rightarrow> ID
     \<Rightarrow> abort + (TreasuryAdminCap \<times> world)" where
  "initialize_treasury adm cold hot cold_thr hot_thr limit signers threshold now treasury_uid =
    (if \<not> (cold_thr > hot_thr) then Inl (Abort E_INVALID_THRESHOLD)
     else if \<not> (threshold > 0) then Inl (Abort E_INVALID_THRESHOLD)
     else if 255 < length signers then Inl ArithmeticError
     else if \<not> (threshold \<le> (of_nat (length signers) :: u8)) then Inl (Abort E_INVALID_THRESHOLD)
     else Inr (\<lparr> ac_treasury_id = treasury_uid \<rparr>,
               \<lparr> treasury =
                   \<lparr> t_id = treasury_uid, admin = adm, cold_wallet = cold, hot_wallet = hot,
                     cold_threshold = cold_thr, hot_threshold = hot_thr,
                     emergency_mode = False, multisig_signers = signers,
                     multisig_threshold = threshold, daily_limit = limit, daily_spent = 0,
                     last_reset = now, agent_allocations = Map.empty,
                     pending_approvals = Map.empty, approval_counter = 0 \<rparr>,
                 balance_obj = \<lparr> balance = 0, tb_treasury_id = treasury_uid \<rparr>,
                 emitted = [TreasuryCreated treasury_uid adm cold_thr hot_thr],
                 sent = [] \<rparr>))"

definition deposit :: "world \<Rightarrow> u64 \<Rightarrow> abort + world" where
  "deposit w payment =
    (let t = treasury w; b = balance_obj w
     in if \<not> (t_id t = tb_treasury_id b) then Inl (Abort E_NOT_AUTHORIZED)
        else if add_overflows (balance b) payment then Inl ArithmeticError
        else Inr (w\<lparr> balance_obj := b\<lparr> balance := balance b + payment \<rparr> \<rparr>))"

definition allocate_agent_budget ::
  "world \<Rightarrow> String \<Rightarrow> u64 \<Rightarrow> u8 \<Rightarrow> u64 \<Rightarrow> TreasuryAdminCap \<Rightarrow> u64 \<Rightarrow> abort + (AgentCap \<times> world)" where
  "allocate_agent_budget w agent_id amount sec_level duration_ms admin_cap now =
    (let t0 = treasury w
     in if \<not> (t_id t0 = ac_treasury_id admin_cap) then Inl (Abort E_NOT_AUTHORIZED)
        else if emergency_mode t0 then Inl (Abort E_EMERGENCY_MODE_ACTIVE)
        else case update_daily_spending t0 now of
               Inl e \<Rightarrow> Inl e
             | Inr t \<Rightarrow>
                 if add_overflows (daily_spent t) amount then Inl ArithmeticError
                 else if \<not> (daily_spent t + amount \<le> daily_limit t)
                      then Inl (Abort E_DAILY_LIMIT_EXCEEDED)
                 else if add_overflows now duration_ms then Inl ArithmeticError
                 else
                   let expires_at = now + duration_ms;
                       allocation = \<lparr> al_agent_id = agent_id, allocated_amount = amount,
                                      spent_amount = 0, security_level = sec_level,
                                      al_created_at = now, al_expires_at = expires_at \<rparr>;
                       agent_cap = \<lparr> cap_agent_id = agent_id, cap_treasury_id = t_id t,
                                     max_amount = amount, cap_expires_at = expires_at \<rparr>
                   in if agent_allocations t agent_id \<noteq> None then Inl FieldAlreadyExists
                      else Inr (agent_cap,
                                w\<lparr> treasury :=
                                     t\<lparr> agent_allocations :=
                                          (agent_allocations t)(agent_id \<mapsto> allocation),
                                        daily_spent := daily_spent t + amount \<rparr>,
                                   emitted := emitted w @
                                     [AgentAllocated (t_id t) agent_id amount sec_level] \<rparr>))"

definition agent_transfer ::
  "world \<Rightarrow> AgentCap \<Rightarrow> address \<Rightarrow> u64 \<Rightarrow> String \<Rightarrow> u64 \<Rightarrow> abort + (u64 option \<times> world)" where
  "agent_transfer w agent_cap recipient amount memo now =
    (let t = treasury w; b = balance_obj w
     in if \<not> (t_id t = cap_treasury_id agent_cap) then Inl (Abort E_NOT_AUTHORIZED)
        else if \<not> (t_id t = tb_treasury_id b) then Inl (Abort E_NOT_AUTHORIZED)
        else if emergency_mode t then Inl (Abort E_EMERGENCY_MODE_ACTIVE)
        else if \<not> (amount \<le> max_amount agent_cap) then Inl (Abort E_INSUFFICIENT_BALANCE)
        else if \<not> (now \<le> cap_expires_at agent_cap) then Inl (Abort E_INVALID_AGENT_ID)
        else case agent_allocations t (cap_agent_id agent_cap) of
               None \<Rightarrow> Inl (Abort E_INVALID_AGENT_ID)
             | Some allocation \<Rightarrow>
                 if add_overflows (spent_amount allocation) amount then Inl ArithmeticError
                 else if \<not> (spent_amount allocation + amount \<le> allocated_amount allocation)
                      then Inl (Abort E_INSUFFICIENT_BALANCE)
                 else if amount \<ge> cold_threshold t
                 then (case create_pending_approval w amount recipient
                              (multisig_threshold t) memo now of
                         Inl e \<Rightarrow> Inl e
                       | Inr (approval_id, w') \<Rightarrow> Inr (Some approval_id, w'))
                 else (case execute_transfer w recipient amount 0 None of
                         Inl e \<Rightarrow> Inl e
                       | Inr w' \<Rightarrow>
                           Inr (None,
                                w'\<lparr> treasury :=
                                      t\<lparr> agent_allocations :=
                                           (agent_allocations t)(cap_agent_id agent_cap \<mapsto>
                                              allocation\<lparr> spent_amount :=
                                                spent_amount allocation + amount \<rparr>) \<rparr>,
                                    emitted := emitted w' @
                                      [FundsTransferred (t_id t) recipient amount 0 None] \<rparr>)))"

text \<open>
  \<^verbatim>\<open>approve_transaction\<close>: the approver is the sender of the transaction. The signature is
  pushed and \<^verbatim>\<open>ApprovalProvided\<close> is emitted before the threshold test; the test casts the
  number of approvals to \<^verbatim>\<open>u8\<close>. The function has no clock parameter.
\<close>

definition approve_transaction :: "world \<Rightarrow> u64 \<Rightarrow> address \<Rightarrow> abort + world" where
  "approve_transaction w approval_id approver_addr =
    (let t = treasury w
     in if emergency_mode t then Inl (Abort E_EMERGENCY_MODE_ACTIVE)
        else case pending_approvals t approval_id of
               None \<Rightarrow> Inl (Abort E_INVALID_AGENT_ID)
             | Some approval0 \<Rightarrow>
                 if \<not> (approver_addr \<in> set (multisig_signers t)) then Inl (Abort E_NOT_AUTHORIZED)
                 else if approver_addr \<in> set (approvals approval0) then Inl (Abort E_NOT_AUTHORIZED)
                 else
                   let approval = approval0\<lparr> approvals := approvals approval0 @ [approver_addr] \<rparr>;
                       w1 = w\<lparr> treasury := t\<lparr> pending_approvals :=
                                  (pending_approvals t)(approval_id \<mapsto> approval) \<rparr>,
                               emitted := emitted w @
                                 [ApprovalProvided (t_id t) approval_id approver_addr
                                    (of_nat (length (approvals approval)))] \<rparr>
                   in if 255 < length (approvals approval) then Inl ArithmeticError
                      else if (of_nat (length (approvals approval)) :: u8) \<ge> required_approvals approval
                      then (case execute_transfer w1 (pa_recipient approval) (pa_amount approval)
                                   2 (Some approval_id) of
                              Inl e \<Rightarrow> Inl e
                            | Inr w2 \<Rightarrow>
                                Inr (w2\<lparr> treasury := (treasury w2)\<lparr> pending_approvals :=
                                            (pending_approvals (treasury w2))(approval_id := None) \<rparr>,
                                         emitted := emitted w2 @
                                           [FundsTransferred (t_id t) (pa_recipient approval)
                                              (pa_amount approval) 2 (Some approval_id)] \<rparr>))
                      else Inr w1)"

definition emergency_stop :: "world \<Rightarrow> String \<Rightarrow> TreasuryAdminCap \<Rightarrow> address \<Rightarrow> abort + world" where
  "emergency_stop w reason admin_cap sender =
    (let t = treasury w
     in if \<not> (t_id t = ac_treasury_id admin_cap) then Inl (Abort E_NOT_AUTHORIZED)
        else Inr (w\<lparr> treasury := t\<lparr> emergency_mode := True \<rparr>,
                     emitted := emitted w @ [EmergencyActivated (t_id t) reason sender] \<rparr>))"

definition deactivate_emergency :: "world \<Rightarrow> TreasuryAdminCap \<Rightarrow> abort + world" where
  "deactivate_emergency w admin_cap =
    (let t = treasury w
     in if \<not> (t_id t = ac_treasury_id admin_cap) then Inl (Abort E_NOT_AUTHORIZED)
        else Inr (w\<lparr> treasury := t\<lparr> emergency_mode := False \<rparr> \<rparr>))"

subsection \<open>Transactions\<close>

text \<open>
  A call of one of the six state-changing public functions, with its arguments. The
  capabilities are arguments: the caller presents them.
\<close>

datatype call =
    Deposit u64
  | AllocateAgentBudget String u64 u8 u64 TreasuryAdminCap u64
  | AgentTransfer AgentCap address u64 String u64
  | ApproveTransaction u64 address
  | EmergencyStop String TreasuryAdminCap address
  | DeactivateEmergency TreasuryAdminCap

datatype ret = RetUnit | RetAgentCap AgentCap | RetApprovalId "u64 option"

fun call_result :: "world \<Rightarrow> call \<Rightarrow> abort + (ret \<times> world)" where
  "call_result w (Deposit payment) = map_sum id (Pair RetUnit) (deposit w payment)"
| "call_result w (AllocateAgentBudget agent_id amount sec_level duration_ms admin_cap now) =
     map_sum id (map_prod RetAgentCap id)
       (allocate_agent_budget w agent_id amount sec_level duration_ms admin_cap now)"
| "call_result w (AgentTransfer agent_cap recipient amount memo now) =
     map_sum id (map_prod RetApprovalId id) (agent_transfer w agent_cap recipient amount memo now)"
| "call_result w (ApproveTransaction approval_id approver_addr) =
     map_sum id (Pair RetUnit) (approve_transaction w approval_id approver_addr)"
| "call_result w (EmergencyStop reason admin_cap sender) =
     map_sum id (Pair RetUnit) (emergency_stop w reason admin_cap sender)"
| "call_result w (DeactivateEmergency admin_cap) =
     map_sum id (Pair RetUnit) (deactivate_emergency w admin_cap)"

text \<open>
  One transaction, as the Move runtime executes it: the effects of a call that returns are
  committed, the effects of a call that aborts are discarded and the objects stay as they
  were. The result is the state after the transaction and what the caller sees.
\<close>

definition transact :: "world \<Rightarrow> call \<Rightarrow> world \<times> (abort + ret)" where
  "transact w c = (case call_result w c of
                     Inl e \<Rightarrow> (w, Inl e)
                   | Inr (r, w') \<Rightarrow> (w', Inr r))"

fun run :: "world \<Rightarrow> call list \<Rightarrow> world" where
  "run w [] = w"
| "run w (c # cs) = run (fst (transact w c)) cs"

subsection \<open>The checks of the two guarded entry points\<close>

text \<open>
  The six assertions of \<^verbatim>\<open>agent_transfer\<close> that precede the routing decision, all
  passing: both bindings, not frozen, the capability's maximum, the capability's expiry,
  the allocation exists, and the allocation's budget covers the amount (the sum is computed
  in \<^verbatim>\<open>u64\<close>, so it must not overflow either).
\<close>

definition transfer_checks_pass :: "world \<Rightarrow> AgentCap \<Rightarrow> u64 \<Rightarrow> u64 \<Rightarrow> bool" where
  "transfer_checks_pass w agent_cap amount now \<longleftrightarrow>
     t_id (treasury w) = cap_treasury_id agent_cap \<and>
     t_id (treasury w) = tb_treasury_id (balance_obj w) \<and>
     \<not> emergency_mode (treasury w) \<and>
     amount \<le> max_amount agent_cap \<and>
     now \<le> cap_expires_at agent_cap \<and>
     (case agent_allocations (treasury w) (cap_agent_id agent_cap) of
        None \<Rightarrow> False
      | Some allocation \<Rightarrow>
          \<not> add_overflows (spent_amount allocation) amount \<and>
          spent_amount allocation + amount \<le> allocated_amount allocation)"

text \<open>
  The four assertions of \<^verbatim>\<open>approve_transaction\<close>, all passing: not frozen, the approval
  exists, the approver is a signer, the approver has not approved yet.
\<close>

definition approve_checks_pass :: "world \<Rightarrow> u64 \<Rightarrow> address \<Rightarrow> bool" where
  "approve_checks_pass w approval_id approver_addr \<longleftrightarrow>
     \<not> emergency_mode (treasury w) \<and>
     (case pending_approvals (treasury w) approval_id of
        None \<Rightarrow> False
      | Some approval \<Rightarrow>
          approver_addr \<in> set (multisig_signers (treasury w)) \<and>
          approver_addr \<notin> set (approvals approval))"

subsection \<open>State predicates\<close>

text \<open>Every allocation has spent at most its allocated amount.\<close>

definition budgets_respected :: "Treasury \<Rightarrow> bool" where
  "budgets_respected t \<longleftrightarrow>
     (\<forall>a al. agent_allocations t a = Some al \<longrightarrow> spent_amount al \<le> allocated_amount al)"

text \<open>Every id in the pending table is below the counter, so the counter value is unused.\<close>

definition ids_below_counter :: "Treasury \<Rightarrow> bool" where
  "ids_below_counter t \<longleftrightarrow>
     (\<forall>k p. pending_approvals t k = Some p \<longrightarrow> k < approval_counter t)"

subsection \<open>Pending approvals up to their expiry field\<close>

definition erase_expiry :: "world \<Rightarrow> world" where
  "erase_expiry w =
     w\<lparr> treasury := (treasury w)\<lparr> pending_approvals :=
          (\<lambda>k. map_option (\<lambda>p. p\<lparr> pa_expires_at := 0 \<rparr>) (pending_approvals (treasury w) k)) \<rparr> \<rparr>"

text \<open>Two states differ at most in the \<^verbatim>\<open>expires_at\<close> fields of their pending approvals.\<close>

definition same_up_to_expiry :: "world \<Rightarrow> world \<Rightarrow> bool" where
  "same_up_to_expiry w1 w2 \<longleftrightarrow> erase_expiry w1 = erase_expiry w2"

subsection \<open>A concrete deployment\<close>

text \<open>
  Approval threshold 100000, daily limit 1000000, signers 1, 2 and 3 with two signatures
  required, a deposit of 50000, and two agents: A with a budget of 5000 and B with a
  budget of 150000, both allocated at time 0 for one hour.
\<close>

definition scenario_admin_cap :: TreasuryAdminCap where
  "scenario_admin_cap = \<lparr> ac_treasury_id = 7 \<rparr>"

definition scenario_cap_A :: AgentCap where
  "scenario_cap_A = \<lparr> cap_agent_id = ''A'', cap_treasury_id = 7, max_amount = 5000,
                       cap_expires_at = 3600000 \<rparr>"

definition scenario_cap_B :: AgentCap where
  "scenario_cap_B = \<lparr> cap_agent_id = ''B'', cap_treasury_id = 7, max_amount = 150000,
                       cap_expires_at = 3600000 \<rparr>"

definition scenario_calls :: "call list" where
  "scenario_calls =
     [Deposit 50000,
      AllocateAgentBudget ''A'' 5000 1 3600000 scenario_admin_cap 0,
      AllocateAgentBudget ''B'' 150000 2 3600000 scenario_admin_cap 0]"

definition scenario_treasury :: Treasury where
  "scenario_treasury =
     \<lparr> t_id = 7, admin = 10, cold_wallet = 11, hot_wallet = 12,
       cold_threshold = 100000, hot_threshold = 1000, emergency_mode = False,
       multisig_signers = [1, 2, 3], multisig_threshold = 2,
       daily_limit = 1000000, daily_spent = 155000, last_reset = 0,
       agent_allocations =
         [''A'' \<mapsto> \<lparr> al_agent_id = ''A'', allocated_amount = 5000, spent_amount = 0,
                      security_level = 1, al_created_at = 0, al_expires_at = 3600000 \<rparr>,
          ''B'' \<mapsto> \<lparr> al_agent_id = ''B'', allocated_amount = 150000, spent_amount = 0,
                      security_level = 2, al_created_at = 0, al_expires_at = 3600000 \<rparr>],
       pending_approvals = Map.empty, approval_counter = 0 \<rparr>"

definition scenario_world :: world where
  "scenario_world =
     \<lparr> treasury = scenario_treasury,
       balance_obj = \<lparr> balance = 50000, tb_treasury_id = 7 \<rparr>,
       emitted = [TreasuryCreated 7 10 100000 1000,
                  AgentAllocated 7 ''A'' 5000 1,
                  AgentAllocated 7 ''B'' 150000 2],
       sent = [] \<rparr>"

text \<open>
  The same deployment after agent B asked at time 1000 for a transfer of 120000 to the
  address 20 and signer 1 approved it: one approval is pending, with one signature of two.
\<close>

definition scenario_approval :: PendingApproval where
  "scenario_approval =
     \<lparr> pa_id = 0, pa_amount = 120000, pa_recipient = 20, approvals = [1],
       required_approvals = 2, pa_created_at = 1000, pa_expires_at = 86401000,
       pa_memo = ''rent'' \<rparr>"

definition scenario_pending :: world where
  "scenario_pending =
     scenario_world
       \<lparr> treasury := scenario_treasury
            \<lparr> pending_approvals := [0 \<mapsto> scenario_approval], approval_counter := 1 \<rparr>,
         emitted := emitted scenario_world @
            [ApprovalRequested 7 0 120000 20 2, ApprovalProvided 7 0 1 1] \<rparr>"

text \<open>The state right after \<^verbatim>\<open>initialize_treasury\<close>.\<close>

definition scenario_init :: world where
  "scenario_init =
     \<lparr> treasury = scenario_treasury
         \<lparr> daily_spent := 0, agent_allocations := Map.empty \<rparr>,
       balance_obj = \<lparr> balance = 0, tb_treasury_id = 7 \<rparr>,
       emitted = [TreasuryCreated 7 10 100000 1000],
       sent = [] \<rparr>"

text \<open>The pending state with a balance of 200000, enough to pay the pending 120000.\<close>

definition scenario_funded :: world where
  "scenario_funded =
     scenario_pending\<lparr> balance_obj := \<lparr> balance = 200000, tb_treasury_id = 7 \<rparr> \<rparr>"

text \<open>The pending state after \<^verbatim>\<open>emergency_stop\<close>.\<close>

definition scenario_frozen :: world where
  "scenario_frozen =
     scenario_pending
       \<lparr> treasury := (treasury scenario_pending)\<lparr> emergency_mode := True \<rparr>,
         emitted := emitted scenario_pending @ [EmergencyActivated 7 ''incident'' 10] \<rparr>"

text \<open>
  The funded pending state with the expiry of the pending approval set to 0, which is
  earlier than its creation at time 1000.
\<close>

definition scenario_stale :: world where
  "scenario_stale =
     scenario_funded
       \<lparr> treasury := (treasury scenario_funded)
            \<lparr> pending_approvals :=
                (pending_approvals (treasury scenario_funded))
                  (0 \<mapsto> scenario_approval\<lparr> pa_expires_at := 0 \<rparr>) \<rparr> \<rparr>"

section \<open>Properties\<close>

lemmas op_defs =
  create_pending_approval_def execute_transfer_def update_daily_spending_def deposit_def
  allocate_agent_budget_def agent_transfer_def approve_transaction_def emergency_stop_def
  deactivate_emergency_def

lemmas scenario_defs =
  scenario_admin_cap_def scenario_cap_A_def scenario_cap_B_def scenario_calls_def
  scenario_treasury_def scenario_world_def scenario_approval_def scenario_pending_def
  scenario_init_def scenario_funded_def scenario_frozen_def

lemmas eval_defs = op_defs add_overflows_def one_day_ms_def transact_def Let_def

subsection \<open>The concrete deployment is reachable\<close>

lemma scenario_init_initialized:
  "initialize_treasury 10 11 12 100000 1000 1000000 [1, 2, 3] 2 0 7
     = Inr (scenario_admin_cap, scenario_init)"
  by (simp add: initialize_treasury_def scenario_defs)

lemma scenario_world_reached: "run scenario_init scenario_calls = scenario_world"
  by (simp add: scenario_defs eval_defs)

lemma scenario_pending_reached:
  "run scenario_world [AgentTransfer scenario_cap_B 20 120000 ''rent'' 1000,
                       ApproveTransaction 0 1] = scenario_pending"
  by (simp add: scenario_defs eval_defs word_le_nat_alt)

lemma scenario_funded_reached:
  "run scenario_pending [Deposit 150000] = scenario_funded"
  by (simp add: scenario_defs eval_defs)

lemma scenario_frozen_reached:
  "run scenario_pending [EmergencyStop ''incident'' scenario_admin_cap 10] = scenario_frozen"
  by (simp add: scenario_defs eval_defs)

subsection \<open>Invariants of one transaction\<close>

lemma daily_spent_step:
  assumes "daily_spent (treasury w) \<le> daily_limit (treasury w)"
  shows "daily_spent (treasury (fst (transact w c)))
           \<le> daily_limit (treasury (fst (transact w c)))"
proof (cases c)
  case (Deposit payment)
  with assms show ?thesis
    by (simp add: transact_def deposit_def Let_def)
next
  case (AllocateAgentBudget agent_id amount lvl dur cap now)
  with assms show ?thesis
    by (auto simp: transact_def allocate_agent_budget_def update_daily_spending_def Let_def
             split: if_splits sum.splits)
next
  case (AgentTransfer cap recipient amount memo now)
  with assms show ?thesis
    by (auto simp: transact_def agent_transfer_def create_pending_approval_def
                   execute_transfer_def Let_def
             split: if_splits sum.splits option.splits)
next
  case (ApproveTransaction approval_id approver)
  with assms show ?thesis
    by (auto simp: transact_def approve_transaction_def execute_transfer_def Let_def
             split: if_splits sum.splits option.splits)
next
  case (EmergencyStop reason cap sender)
  with assms show ?thesis
    by (simp add: transact_def emergency_stop_def Let_def)
next
  case (DeactivateEmergency cap)
  with assms show ?thesis
    by (simp add: transact_def deactivate_emergency_def Let_def)
qed

text \<open>Only \<^verbatim>\<open>allocate_agent_budget\<close> writes the daily counter.\<close>

lemma daily_spent_written_by_allocate_only:
  assumes "\<forall>agent_id amount lvl dur cap now.
             c \<noteq> AllocateAgentBudget agent_id amount lvl dur cap now"
  shows "daily_spent (treasury (fst (transact w c))) = daily_spent (treasury w)"
proof (cases c)
  case (Deposit payment)
  then show ?thesis
    by (simp add: transact_def deposit_def Let_def)
next
  case (AllocateAgentBudget agent_id amount lvl dur cap now)
  with assms show ?thesis by simp
next
  case (AgentTransfer cap recipient amount memo now)
  then show ?thesis
    by (auto simp: transact_def agent_transfer_def create_pending_approval_def
                   execute_transfer_def Let_def
             split: if_splits sum.splits option.splits)
next
  case (ApproveTransaction approval_id approver)
  then show ?thesis
    by (auto simp: transact_def approve_transaction_def execute_transfer_def Let_def
             split: if_splits sum.splits option.splits)
next
  case (EmergencyStop reason cap sender)
  then show ?thesis
    by (simp add: transact_def emergency_stop_def Let_def)
next
  case (DeactivateEmergency cap)
  then show ?thesis
    by (simp add: transact_def deactivate_emergency_def Let_def)
qed

text \<open>
  What a successful \<^verbatim>\<open>allocate_agent_budget\<close> writes: after 24 hours or more since the last
  reset the window rolls, the counter restarts at the amount and the reset time is the
  current time; before that the amount is added to the counter. Neither sum overflows.
\<close>

lemma allocate_rolls_daily_window:
  assumes "allocate_agent_budget w agent_id amount lvl dur admin_cap now = Inr (agent_cap, w')"
  shows "last_reset (treasury w) \<le> now \<and>
         (now - last_reset (treasury w) \<ge> one_day_ms \<longrightarrow>
            daily_spent (treasury w') = amount \<and> last_reset (treasury w') = now) \<and>
         (\<not> now - last_reset (treasury w) \<ge> one_day_ms \<longrightarrow>
            unat (daily_spent (treasury w')) = unat (daily_spent (treasury w)) + unat amount \<and>
            last_reset (treasury w') = last_reset (treasury w)) \<and>
         daily_limit (treasury w') = daily_limit (treasury w)"
  using assms
  by (auto simp: allocate_agent_budget_def update_daily_spending_def Let_def
                 add_overflows_def unat_add_lem [THEN iffD1]
           split: if_splits)

lemma daily_spent_run:
  "daily_spent (treasury w) \<le> daily_limit (treasury w) \<Longrightarrow>
   daily_spent (treasury (run w cs)) \<le> daily_limit (treasury (run w cs))"
  by (induction cs arbitrary: w) (simp_all add: daily_spent_step)

lemma budgets_step:
  assumes "budgets_respected (treasury w)"
  shows "budgets_respected (treasury (fst (transact w c)))"
proof (cases c)
  case (Deposit payment)
  with assms show ?thesis
    by (simp add: transact_def deposit_def Let_def)
next
  case (AllocateAgentBudget agent_id amount lvl dur cap now)
  with assms show ?thesis
    by (auto simp: budgets_respected_def transact_def allocate_agent_budget_def
                   update_daily_spending_def Let_def
             split: if_splits sum.splits)
next
  case (AgentTransfer cap recipient amount memo now)
  with assms show ?thesis
    by (auto simp: budgets_respected_def transact_def agent_transfer_def
                   create_pending_approval_def execute_transfer_def Let_def
             split: if_splits sum.splits option.splits)
next
  case (ApproveTransaction approval_id approver)
  with assms show ?thesis
    by (auto simp: budgets_respected_def transact_def approve_transaction_def
                   execute_transfer_def Let_def
             split: if_splits sum.splits option.splits)
next
  case (EmergencyStop reason cap sender)
  with assms show ?thesis
    by (simp add: budgets_respected_def transact_def emergency_stop_def Let_def)
next
  case (DeactivateEmergency cap)
  with assms show ?thesis
    by (simp add: budgets_respected_def transact_def deactivate_emergency_def Let_def)
qed

lemma budgets_run:
  "budgets_respected (treasury w) \<Longrightarrow> budgets_respected (treasury (run w cs))"
  by (induction cs arbitrary: w) (simp_all add: budgets_step)

lemma initialize_treasury_fresh:
  assumes "initialize_treasury adm cold hot cold_thr hot_thr limit signers threshold now uid
             = Inr (cap, w0)"
  shows "daily_spent (treasury w0) = 0"
    and "agent_allocations (treasury w0) = Map.empty"
    and "pending_approvals (treasury w0) = Map.empty"
    and "\<not> emergency_mode (treasury w0)"
  using assms by (auto simp: initialize_treasury_def split: if_splits)

subsection \<open>The daily counter\<close>

text \<open>
  Claim C5. In every state reached from \<^verbatim>\<open>initialize_treasury\<close> by any sequence of
  transactions (calls that abort included, with any arguments and any capabilities), the
  daily-spent counter is between 0 and the daily limit; it is 0 right after
  initialisation.
\<close>

theorem daily_spent_within_limit:
  assumes "initialize_treasury adm cold hot cold_thr hot_thr limit signers threshold now uid
             = Inr (cap, w0)"
  shows "daily_spent (treasury w0) = 0 \<and>
         0 \<le> daily_spent (treasury (run w0 cs)) \<and>
         daily_spent (treasury (run w0 cs)) \<le> daily_limit (treasury (run w0 cs))"
proof -
  have zero: "daily_spent (treasury w0) = 0"
    using assms by (rule initialize_treasury_fresh)
  then have "daily_spent (treasury w0) \<le> daily_limit (treasury w0)"
    by simp
  then have "daily_spent (treasury (run w0 cs)) \<le> daily_limit (treasury (run w0 cs))"
    by (rule daily_spent_run)
  with zero show ?thesis by simp
qed

theorem daily_spent_within_limit_witness:
  "initialize_treasury 10 11 12 100000 1000 1000000 [1, 2, 3] 2 0 7
     = Inr (scenario_admin_cap, scenario_init) \<and>
   daily_spent (treasury scenario_init) = 0 \<and>
   daily_spent (treasury (run scenario_init scenario_calls)) = 155000 \<and>
   daily_spent (treasury (run scenario_init scenario_calls))
     \<le> daily_limit (treasury (run scenario_init scenario_calls))"
proof -
  have "daily_spent (treasury (run scenario_init scenario_calls)) = 155000"
    by (simp add: scenario_world_reached) (simp add: scenario_defs)
  with daily_spent_within_limit [OF scenario_init_initialized, of scenario_calls]
       scenario_init_initialized
  show ?thesis by simp
qed

subsection \<open>The budgets of the agents\<close>

text \<open>
  Claim C6. In every state reached from \<^verbatim>\<open>initialize_treasury\<close> by any sequence of
  transactions, every allocation in the allocation table has spent at most what it was
  allocated.
\<close>

theorem allocation_spent_within_allocated:
  assumes "initialize_treasury adm cold hot cold_thr hot_thr limit signers threshold now uid
             = Inr (cap, w0)"
    and "agent_allocations (treasury (run w0 cs)) a = Some al"
  shows "spent_amount al \<le> allocated_amount al"
proof -
  have "agent_allocations (treasury w0) = Map.empty"
    using assms(1) by (rule initialize_treasury_fresh)
  then have "budgets_respected (treasury w0)"
    by (simp add: budgets_respected_def)
  then have "budgets_respected (treasury (run w0 cs))"
    by (rule budgets_run)
  with assms(2) show ?thesis
    by (simp add: budgets_respected_def)
qed

theorem allocation_spent_within_allocated_witness:
  "initialize_treasury 10 11 12 100000 1000 1000000 [1, 2, 3] 2 0 7
     = Inr (scenario_admin_cap, scenario_init) \<and>
   agent_allocations
     (treasury (run scenario_init
        (scenario_calls @ [AgentTransfer scenario_cap_A 20 4000 ''fee'' 5]))) ''A''
     = Some \<lparr> al_agent_id = ''A'', allocated_amount = 5000, spent_amount = 4000,
               security_level = 1, al_created_at = 0, al_expires_at = 3600000 \<rparr> \<and>
   (4000 :: u64) \<le> 5000"
proof -
  have reached:
    "agent_allocations
       (treasury (run scenario_init
          (scenario_calls @ [AgentTransfer scenario_cap_A 20 4000 ''fee'' 5]))) ''A''
       = Some \<lparr> al_agent_id = ''A'', allocated_amount = 5000, spent_amount = 4000,
                 security_level = 1, al_created_at = 0, al_expires_at = 3600000 \<rparr>"
    by (simp add: scenario_defs eval_defs)
  from allocation_spent_within_allocated [OF scenario_init_initialized reached]
       scenario_init_initialized reached
  show ?thesis by simp
qed

subsection \<open>Checked arithmetic on words\<close>

lemma unat_checked_add:
  "\<not> add_overflows a b \<Longrightarrow> unat (a + b) = unat a + unat b"
  by (simp add: add_overflows_def unat_add_lem [THEN iffD1])

lemma unat_checked_sub:
  "(b :: u64) \<le> a \<Longrightarrow> unat (a - b) = unat a - unat b"
  by (simp add: unat_sub)

subsection \<open>Routing of a transfer\<close>

text \<open>
  Claim C1, as amended. A call of \<^verbatim>\<open>agent_transfer\<close> on an unfrozen treasury that passes
  the binding, maximum-amount, expiry, known-agent and budget assertions does one of three
  things. If the amount is at least the approval threshold, and the counter increment and
  the expiry addition fit in \<^verbatim>\<open>u64\<close>, and the counter value is not yet a key of the
  pending table, it stores a pending approval under the counter value, returns that id and
  leaves the allocations, the balance and the coins sent as they were. If the amount is
  below the threshold and the balance covers it, it returns no id, the balance goes down by
  the amount, the agent's spent amount goes up by the amount and \<^verbatim>\<open>FundsTransferred\<close> with
  mode 0 is emitted. If the amount is below the threshold and the balance does not cover
  it, the call aborts with \<^verbatim>\<open>E_INSUFFICIENT_BALANCE\<close>.
\<close>

theorem agent_transfer_routes:
  assumes "transfer_checks_pass w agent_cap amount now"
  shows
    "(amount \<ge> cold_threshold (treasury w) \<and>
      \<not> add_overflows (approval_counter (treasury w)) 1 \<and>
      \<not> add_overflows now one_day_ms \<and>
      pending_approvals (treasury w) (approval_counter (treasury w)) = None \<longrightarrow>
        (\<exists>w'. agent_transfer w agent_cap recipient amount memo now
                 = Inr (Some (approval_counter (treasury w)), w') \<and>
              pending_approvals (treasury w') (approval_counter (treasury w))
                 = Some \<lparr> pa_id = approval_counter (treasury w), pa_amount = amount,
                           pa_recipient = recipient, approvals = [],
                           required_approvals = multisig_threshold (treasury w),
                           pa_created_at = now, pa_expires_at = now + one_day_ms,
                           pa_memo = memo \<rparr> \<and>
              agent_allocations (treasury w') = agent_allocations (treasury w) \<and>
              balance_obj w' = balance_obj w \<and>
              sent w' = sent w)) \<and>
     (\<not> amount \<ge> cold_threshold (treasury w) \<and> amount \<le> balance (balance_obj w) \<longrightarrow>
        (\<exists>w' al. agent_transfer w agent_cap recipient amount memo now = Inr (None, w') \<and>
              unat (balance (balance_obj w')) = unat (balance (balance_obj w)) - unat amount \<and>
              agent_allocations (treasury w) (cap_agent_id agent_cap) = Some al \<and>
              agent_allocations (treasury w') =
                (agent_allocations (treasury w))(cap_agent_id agent_cap \<mapsto>
                   al\<lparr> spent_amount := spent_amount al + amount \<rparr>) \<and>
              unat (spent_amount al + amount) = unat (spent_amount al) + unat amount \<and>
              emitted w' = emitted w @
                [FundsTransferred (t_id (treasury w)) recipient amount 0 None] \<and>
              sent w' = sent w @ [(recipient, amount)] \<and>
              pending_approvals (treasury w') = pending_approvals (treasury w))) \<and>
     (\<not> amount \<ge> cold_threshold (treasury w) \<and> balance (balance_obj w) < amount \<longrightarrow>
        agent_transfer w agent_cap recipient amount memo now
          = Inl (Abort E_INSUFFICIENT_BALANCE))"
proof -
  from assms obtain al where
    al: "agent_allocations (treasury w) (cap_agent_id agent_cap) = Some al"
    and no: "\<not> add_overflows (spent_amount al) amount"
    and le: "spent_amount al + amount \<le> allocated_amount al"
    by (auto simp: transfer_checks_pass_def split: option.splits)
  from assms have pre:
    "t_id (treasury w) = cap_treasury_id agent_cap"
    "t_id (treasury w) = tb_treasury_id (balance_obj w)"
    "\<not> emergency_mode (treasury w)"
    "amount \<le> max_amount agent_cap"
    "now \<le> cap_expires_at agent_cap"
    by (auto simp: transfer_checks_pass_def)
  have A: "amount \<ge> cold_threshold (treasury w) \<and>
      \<not> add_overflows (approval_counter (treasury w)) 1 \<and>
      \<not> add_overflows now one_day_ms \<and>
      pending_approvals (treasury w) (approval_counter (treasury w)) = None \<longrightarrow>
        (\<exists>w'. agent_transfer w agent_cap recipient amount memo now
                 = Inr (Some (approval_counter (treasury w)), w') \<and>
              pending_approvals (treasury w') (approval_counter (treasury w))
                 = Some \<lparr> pa_id = approval_counter (treasury w), pa_amount = amount,
                           pa_recipient = recipient, approvals = [],
                           required_approvals = multisig_threshold (treasury w),
                           pa_created_at = now, pa_expires_at = now + one_day_ms,
                           pa_memo = memo \<rparr> \<and>
              agent_allocations (treasury w') = agent_allocations (treasury w) \<and>
              balance_obj w' = balance_obj w \<and>
              sent w' = sent w)"
    using pre al no le
    by (simp add: agent_transfer_def create_pending_approval_def Let_def)
  have B: "\<not> amount \<ge> cold_threshold (treasury w) \<and> amount \<le> balance (balance_obj w) \<longrightarrow>
        (\<exists>w' al. agent_transfer w agent_cap recipient amount memo now = Inr (None, w') \<and>
              unat (balance (balance_obj w')) = unat (balance (balance_obj w)) - unat amount \<and>
              agent_allocations (treasury w) (cap_agent_id agent_cap) = Some al \<and>
              agent_allocations (treasury w') =
                (agent_allocations (treasury w))(cap_agent_id agent_cap \<mapsto>
                   al\<lparr> spent_amount := spent_amount al + amount \<rparr>) \<and>
              unat (spent_amount al + amount) = unat (spent_amount al) + unat amount \<and>
              emitted w' = emitted w @
                [FundsTransferred (t_id (treasury w)) recipient amount 0 None] \<and>
              sent w' = sent w @ [(recipient, amount)] \<and>
              pending_approvals (treasury w') = pending_approvals (treasury w))"
    using pre al no le
    by (simp add: agent_transfer_def execute_transfer_def Let_def unat_checked_add
                  unat_checked_sub)
  have C: "\<not> amount \<ge> cold_threshold (treasury w) \<and> balance (balance_obj w) < amount \<longrightarrow>
        agent_transfer w agent_cap recipient amount memo now
          = Inl (Abort E_INSUFFICIENT_BALANCE)"
    using pre al no le
    by (auto simp: agent_transfer_def execute_transfer_def Let_def)
  from A B C show ?thesis by blast
qed

text \<open>
  Claim C1 as stated fails: agent B passes every listed check with an amount of 60000, which
  is below the threshold of 100000, but the treasury holds 50000 only. The call aborts;
  the balance does not go down and nothing is spent.
\<close>

theorem transfer_immediate_counterexample:
  "transfer_checks_pass scenario_world scenario_cap_B 60000 5 \<and>
   \<not> emergency_mode (treasury scenario_world) \<and>
   \<not> 60000 \<ge> cold_threshold (treasury scenario_world) \<and>
   agent_transfer scenario_world scenario_cap_B 20 60000 ''fee'' 5
     = Inl (Abort E_INSUFFICIENT_BALANCE)"
  by (simp add: transfer_checks_pass_def scenario_defs eval_defs)


theorem agent_transfer_routes_witness:
  "transfer_checks_pass scenario_world scenario_cap_A 4000 5 \<and>
   \<not> 4000 \<ge> cold_threshold (treasury scenario_world) \<and>
   4000 \<le> balance (balance_obj scenario_world) \<and>
   (\<exists>w'. agent_transfer scenario_world scenario_cap_A 20 4000 ''fee'' 5 = Inr (None, w') \<and>
         unat (balance (balance_obj w')) = 46000 \<and>
         map_option spent_amount (agent_allocations (treasury w') ''A'') = Some 4000 \<and>
         emitted w' = emitted scenario_world @ [FundsTransferred 7 20 4000 0 None]) \<and>
   transfer_checks_pass scenario_world scenario_cap_B 120000 1000 \<and>
   120000 \<ge> cold_threshold (treasury scenario_world) \<and>
   (\<exists>w'. agent_transfer scenario_world scenario_cap_B 20 120000 ''rent'' 1000
            = Inr (Some 0, w') \<and>
         map_option pa_amount (pending_approvals (treasury w') 0) = Some 120000 \<and>
         agent_allocations (treasury w') = agent_allocations (treasury scenario_world) \<and>
         balance_obj w' = balance_obj scenario_world) \<and>
   transfer_checks_pass scenario_world scenario_cap_B 60000 5 \<and>
   \<not> 60000 \<ge> cold_threshold (treasury scenario_world) \<and>
   balance (balance_obj scenario_world) < 60000 \<and>
   agent_transfer scenario_world scenario_cap_B 20 60000 ''fee'' 5
     = Inl (Abort E_INSUFFICIENT_BALANCE)"
proof -
  have h1: "transfer_checks_pass scenario_world scenario_cap_A 4000 5"
    by (simp add: transfer_checks_pass_def scenario_defs add_overflows_def)
  have g1: "\<not> 4000 \<ge> cold_threshold (treasury scenario_world) \<and>
            4000 \<le> balance (balance_obj scenario_world)"
    by (simp add: scenario_defs)
  from agent_transfer_routes [OF h1, of 20 "''fee''"] g1
  obtain w1 al where r1:
    "agent_transfer scenario_world scenario_cap_A 20 4000 ''fee'' 5 = Inr (None, w1)"
    "unat (balance (balance_obj w1)) = unat (balance (balance_obj scenario_world)) - unat (4000 :: u64)"
    "agent_allocations (treasury scenario_world) (cap_agent_id scenario_cap_A) = Some al"
    "agent_allocations (treasury w1) =
       (agent_allocations (treasury scenario_world))(cap_agent_id scenario_cap_A \<mapsto>
          al\<lparr> spent_amount := spent_amount al + 4000 \<rparr>)"
    "emitted w1 = emitted scenario_world @
       [FundsTransferred (t_id (treasury scenario_world)) 20 4000 0 None]"
    by blast
  from r1(3) have al: "spent_amount al = 0"
    by (auto simp: scenario_defs)
  have e1: "\<exists>w'. agent_transfer scenario_world scenario_cap_A 20 4000 ''fee'' 5 = Inr (None, w') \<and>
         unat (balance (balance_obj w')) = 46000 \<and>
         map_option spent_amount (agent_allocations (treasury w') ''A'') = Some 4000 \<and>
         emitted w' = emitted scenario_world @ [FundsTransferred 7 20 4000 0 None]"
    using r1(1,2,4,5) al by (intro exI [of _ w1]) (simp add: scenario_defs)
  have h2: "transfer_checks_pass scenario_world scenario_cap_B 120000 1000"
    by (simp add: transfer_checks_pass_def scenario_defs add_overflows_def)
  have g2: "120000 \<ge> cold_threshold (treasury scenario_world) \<and>
      \<not> add_overflows (approval_counter (treasury scenario_world)) 1 \<and>
      \<not> add_overflows 1000 one_day_ms \<and>
      pending_approvals (treasury scenario_world) (approval_counter (treasury scenario_world))
        = None"
    by (simp add: scenario_defs add_overflows_def one_day_ms_def)
  from agent_transfer_routes [OF h2, of 20 "''rent''"] g2
  obtain w2 where r2:
    "agent_transfer scenario_world scenario_cap_B 20 120000 ''rent'' 1000
       = Inr (Some (approval_counter (treasury scenario_world)), w2)"
    "pending_approvals (treasury w2) (approval_counter (treasury scenario_world))
       = Some \<lparr> pa_id = approval_counter (treasury scenario_world), pa_amount = 120000,
                 pa_recipient = 20, approvals = [],
                 required_approvals = multisig_threshold (treasury scenario_world),
                 pa_created_at = 1000, pa_expires_at = 1000 + one_day_ms,
                 pa_memo = ''rent'' \<rparr>"
    "agent_allocations (treasury w2) = agent_allocations (treasury scenario_world)"
    "balance_obj w2 = balance_obj scenario_world"
    by blast
  have c0: "approval_counter (treasury scenario_world) = 0"
    by (simp add: scenario_defs)
  have e2: "\<exists>w'. agent_transfer scenario_world scenario_cap_B 20 120000 ''rent'' 1000
            = Inr (Some 0, w') \<and>
         map_option pa_amount (pending_approvals (treasury w') 0) = Some 120000 \<and>
         agent_allocations (treasury w') = agent_allocations (treasury scenario_world) \<and>
         balance_obj w' = balance_obj scenario_world"
    using r2 unfolding c0 by (intro exI [of _ w2]) simp
  have h3: "transfer_checks_pass scenario_world scenario_cap_B 60000 5"
    by (simp add: transfer_checks_pass_def scenario_defs add_overflows_def)
  have g3: "\<not> 60000 \<ge> cold_threshold (treasury scenario_world) \<and>
            balance (balance_obj scenario_world) < 60000"
    by (simp add: scenario_defs)
  from agent_transfer_routes [OF h3, of 20 "''fee''"] g3
  have e3: "agent_transfer scenario_world scenario_cap_B 20 60000 ''fee'' 5
              = Inl (Abort E_INSUFFICIENT_BALANCE)"
    by blast
  from h1 g1 e1 h2 g2 e2 h3 g3 e3 show ?thesis by blast
qed

subsection \<open>Approval and execution at quorum\<close>

lemma cast_u8_ge:
  assumes "n \<le> 255"
  shows "(of_nat n :: u8) \<ge> r \<longleftrightarrow> unat r \<le> n"
proof -
  from assms have "unat (of_nat n :: u8) = n"
    by (simp add: unat_of_nat)
  then show ?thesis
    by (simp add: word_le_nat_alt)
qed




subsection \<open>The emergency flag\<close>

lemma flag_kept:
  assumes "emergency_mode (treasury w)" and "\<forall>cap. c \<noteq> DeactivateEmergency cap"
  shows "emergency_mode (treasury (fst (transact w c)))"
proof (cases c)
  case (Deposit payment)
  with assms(1) show ?thesis
    by (simp add: transact_def deposit_def Let_def)
next
  case (AllocateAgentBudget agent_id amount lvl dur cap now)
  with assms(1) show ?thesis
    by (simp add: transact_def allocate_agent_budget_def Let_def)
next
  case (AgentTransfer cap recipient amount memo now)
  with assms(1) show ?thesis
    by (simp add: transact_def agent_transfer_def Let_def)
next
  case (ApproveTransaction approval_id approver)
  with assms(1) show ?thesis
    by (simp add: transact_def approve_transaction_def Let_def)
next
  case (EmergencyStop reason cap sender)
  with assms(1) show ?thesis
    by (simp add: transact_def emergency_stop_def Let_def)
next
  case (DeactivateEmergency cap)
  with assms(2) show ?thesis by simp
qed

text \<open>
  Claim C3, as amended. While the emergency flag is set, \<^verbatim>\<open>approve_transaction\<close> aborts with
  \<^verbatim>\<open>E_EMERGENCY_MODE_ACTIVE\<close>; \<^verbatim>\<open>allocate_agent_budget\<close> and \<^verbatim>\<open>agent_transfer\<close> abort with
  \<^verbatim>\<open>E_EMERGENCY_MODE_ACTIVE\<close> when their binding assertions pass and with \<^verbatim>\<open>E_NOT_AUTHORIZED\<close>
  when they do not; the three transactions leave the state as it was. \<^verbatim>\<open>deposit\<close> does not
  read the flag: with the balance object of this treasury, and a sum that fits in \<^verbatim>\<open>u64\<close>,
  it succeeds, raises the balance by the payment and leaves the treasury as it was. The
  flag stays set after every transaction other than \<^verbatim>\<open>deactivate_emergency\<close>.
\<close>

theorem frozen_blocks_spending:
  assumes "emergency_mode (treasury w)"
  shows
    "approve_transaction w approval_id approver = Inl (Abort E_EMERGENCY_MODE_ACTIVE) \<and>
     allocate_agent_budget w agent_id amount lvl dur admin_cap now
       = Inl (Abort (if t_id (treasury w) = ac_treasury_id admin_cap
                     then E_EMERGENCY_MODE_ACTIVE else E_NOT_AUTHORIZED)) \<and>
     agent_transfer w agent_cap recipient amount' memo now'
       = Inl (Abort (if t_id (treasury w) = cap_treasury_id agent_cap \<and>
                        t_id (treasury w) = tb_treasury_id (balance_obj w)
                     then E_EMERGENCY_MODE_ACTIVE else E_NOT_AUTHORIZED)) \<and>
     fst (transact w (ApproveTransaction approval_id approver)) = w \<and>
     fst (transact w (AllocateAgentBudget agent_id amount lvl dur admin_cap now)) = w \<and>
     fst (transact w (AgentTransfer agent_cap recipient amount' memo now')) = w \<and>
     (t_id (treasury w) = tb_treasury_id (balance_obj w) \<and>
      \<not> add_overflows (balance (balance_obj w)) payment \<longrightarrow>
        (\<exists>w'. deposit w payment = Inr w' \<and>
              unat (balance (balance_obj w')) = unat (balance (balance_obj w)) + unat payment \<and>
              treasury w' = treasury w)) \<and>
     ((\<forall>cap. c \<noteq> DeactivateEmergency cap) \<longrightarrow>
        emergency_mode (treasury (fst (transact w c))))"
proof -
  have approve: "approve_transaction w approval_id approver
                   = Inl (Abort E_EMERGENCY_MODE_ACTIVE)"
    using assms by (simp add: approve_transaction_def Let_def)
  have allocate: "allocate_agent_budget w agent_id amount lvl dur admin_cap now
       = Inl (Abort (if t_id (treasury w) = ac_treasury_id admin_cap
                     then E_EMERGENCY_MODE_ACTIVE else E_NOT_AUTHORIZED))"
    using assms by (simp add: allocate_agent_budget_def Let_def)
  have transfer: "agent_transfer w agent_cap recipient amount' memo now'
       = Inl (Abort (if t_id (treasury w) = cap_treasury_id agent_cap \<and>
                        t_id (treasury w) = tb_treasury_id (balance_obj w)
                     then E_EMERGENCY_MODE_ACTIVE else E_NOT_AUTHORIZED))"
    using assms by (simp add: agent_transfer_def Let_def)
  have unchanged:
    "fst (transact w (ApproveTransaction approval_id approver)) = w"
    "fst (transact w (AllocateAgentBudget agent_id amount lvl dur admin_cap now)) = w"
    "fst (transact w (AgentTransfer agent_cap recipient amount' memo now')) = w"
    by (simp_all add: transact_def approve allocate transfer)
  have dep: "t_id (treasury w) = tb_treasury_id (balance_obj w) \<and>
      \<not> add_overflows (balance (balance_obj w)) payment \<longrightarrow>
        (\<exists>w'. deposit w payment = Inr w' \<and>
              unat (balance (balance_obj w')) = unat (balance (balance_obj w)) + unat payment \<and>
              treasury w' = treasury w)"
    by (simp add: deposit_def Let_def unat_checked_add)
  have kept: "(\<forall>cap. c \<noteq> DeactivateEmergency cap) \<longrightarrow>
        emergency_mode (treasury (fst (transact w c)))"
    using assms flag_kept by blast
  from approve allocate transfer unchanged dep kept show ?thesis
    by blast
qed

text \<open>
  Claim C3 as stated fails for \<^verbatim>\<open>deposit\<close>: on the frozen treasury a deposit of 5 succeeds
  and the balance goes from 50000 to 50005.
\<close>

theorem frozen_deposit_counterexample:
  "emergency_mode (treasury scenario_frozen) \<and>
   deposit scenario_frozen 5
     = Inr (scenario_frozen\<lparr> balance_obj := \<lparr> balance = 50005, tb_treasury_id = 7 \<rparr> \<rparr>) \<and>
   balance (balance_obj (fst (transact scenario_frozen (Deposit 5)))) = 50005 \<and>
   balance (balance_obj scenario_frozen) = 50000"
  by (simp add: scenario_defs eval_defs)

theorem frozen_blocks_spending_witness:
  "emergency_mode (treasury scenario_frozen) \<and>
   approve_transaction scenario_frozen 0 2 = Inl (Abort E_EMERGENCY_MODE_ACTIVE) \<and>
   allocate_agent_budget scenario_frozen ''C'' 100 0 1000 scenario_admin_cap 2000
     = Inl (Abort E_EMERGENCY_MODE_ACTIVE) \<and>
   agent_transfer scenario_frozen scenario_cap_A 20 4000 ''fee'' 2000
     = Inl (Abort E_EMERGENCY_MODE_ACTIVE) \<and>
   fst (transact scenario_frozen (ApproveTransaction 0 2)) = scenario_frozen \<and>
   t_id (treasury scenario_frozen) = tb_treasury_id (balance_obj scenario_frozen) \<and>
   \<not> add_overflows (balance (balance_obj scenario_frozen)) 5 \<and>
   (\<exists>w'. deposit scenario_frozen 5 = Inr w' \<and>
         unat (balance (balance_obj w')) = 50005 \<and>
         treasury w' = treasury scenario_frozen) \<and>
   emergency_mode (treasury (fst (transact scenario_frozen (Deposit 5))))"
proof -
  have h: "emergency_mode (treasury scenario_frozen)"
    by (simp add: scenario_defs)
  have ids: "t_id (treasury scenario_frozen) = ac_treasury_id scenario_admin_cap"
    "t_id (treasury scenario_frozen) = cap_treasury_id scenario_cap_A"
    "t_id (treasury scenario_frozen) = tb_treasury_id (balance_obj scenario_frozen)"
    by (simp_all add: scenario_defs)
  have fits: "\<not> add_overflows (balance (balance_obj scenario_frozen)) 5"
    by (simp add: scenario_defs add_overflows_def)
  have bal: "unat (balance (balance_obj scenario_frozen)) + unat (5 :: u64) = 50005"
    by (simp add: scenario_defs)
  have other: "\<forall>cap. Deposit 5 \<noteq> DeactivateEmergency cap"
    by simp
  from frozen_blocks_spending [OF h, of 0 2 "''C''" 100 0 1000 scenario_admin_cap 2000
         scenario_cap_A 20 4000 "''fee''" 2000 5 "Deposit 5"]
       h ids fits bal other
  show ?thesis by simp
qed

subsection \<open>A second approval by the same signer\<close>

text \<open>
  Claim C7, as amended. When the approver is already in the approvals of the pending
  approval, \<^verbatim>\<open>approve_transaction\<close> aborts and the transaction leaves the state, the list of
  approvers included, as it was. The abort code is \<^verbatim>\<open>E_NOT_AUTHORIZED\<close>, the code that an
  approver outside the signer list gets as well (the module has no code of its own for a
  duplicate), or \<^verbatim>\<open>E_EMERGENCY_MODE_ACTIVE\<close> when the treasury is frozen.
\<close>

theorem duplicate_approval_rejected:
  assumes "pending_approvals (treasury w) approval_id = Some p"
    and "approver \<in> set (approvals p)"
  shows
    "approve_transaction w approval_id approver
       = Inl (Abort (if emergency_mode (treasury w)
                     then E_EMERGENCY_MODE_ACTIVE else E_NOT_AUTHORIZED)) \<and>
     fst (transact w (ApproveTransaction approval_id approver)) = w \<and>
     pending_approvals
       (treasury (fst (transact w (ApproveTransaction approval_id approver)))) approval_id
       = Some p \<and>
     (\<not> emergency_mode (treasury w) \<and> outsider \<notin> set (multisig_signers (treasury w)) \<longrightarrow>
        approve_transaction w approval_id outsider = Inl (Abort E_NOT_AUTHORIZED))"
proof -
  have result: "approve_transaction w approval_id approver
       = Inl (Abort (if emergency_mode (treasury w)
                     then E_EMERGENCY_MODE_ACTIVE else E_NOT_AUTHORIZED))"
    using assms by (simp add: approve_transaction_def Let_def)
  then have same: "fst (transact w (ApproveTransaction approval_id approver)) = w"
    by (simp add: transact_def)
  have other: "\<not> emergency_mode (treasury w) \<and>
        outsider \<notin> set (multisig_signers (treasury w)) \<longrightarrow>
        approve_transaction w approval_id outsider = Inl (Abort E_NOT_AUTHORIZED)"
    using assms(1) by (simp add: approve_transaction_def Let_def)
  from result same other assms(1) show ?thesis by simp
qed

text \<open>
  Claim C7 as stated fails on the error kind. Signer 1, who has approved already, gets
  \<^verbatim>\<open>E_NOT_AUTHORIZED\<close>, exactly what the address 99 outside the signer list gets; on the
  frozen treasury signer 1 gets \<^verbatim>\<open>E_EMERGENCY_MODE_ACTIVE\<close>.
\<close>

theorem duplicate_approval_counterexample:
  "pending_approvals (treasury scenario_pending) 0 = Some scenario_approval \<and>
   1 \<in> set (approvals scenario_approval) \<and>
   approve_transaction scenario_pending 0 1 = Inl (Abort E_NOT_AUTHORIZED) \<and>
   99 \<notin> set (multisig_signers (treasury scenario_pending)) \<and>
   approve_transaction scenario_pending 0 99 = Inl (Abort E_NOT_AUTHORIZED) \<and>
   pending_approvals (treasury scenario_frozen) 0 = Some scenario_approval \<and>
   approve_transaction scenario_frozen 0 1 = Inl (Abort E_EMERGENCY_MODE_ACTIVE)"
  by (simp add: scenario_defs eval_defs)

theorem duplicate_approval_rejected_witness:
  "pending_approvals (treasury scenario_pending) 0 = Some scenario_approval \<and>
   1 \<in> set (approvals scenario_approval) \<and>
   \<not> emergency_mode (treasury scenario_pending) \<and>
   99 \<notin> set (multisig_signers (treasury scenario_pending)) \<and>
   approve_transaction scenario_pending 0 1 = Inl (Abort E_NOT_AUTHORIZED) \<and>
   fst (transact scenario_pending (ApproveTransaction 0 1)) = scenario_pending \<and>
   approve_transaction scenario_pending 0 99 = Inl (Abort E_NOT_AUTHORIZED)"
proof -
  have h1: "pending_approvals (treasury scenario_pending) 0 = Some scenario_approval"
    by (simp add: scenario_defs)
  have h2: "1 \<in> set (approvals scenario_approval)"
    by (simp add: scenario_defs)
  have h3: "\<not> emergency_mode (treasury scenario_pending)"
    by (simp add: scenario_defs)
  have h4: "99 \<notin> set (multisig_signers (treasury scenario_pending))"
    by (simp add: scenario_defs)
  from duplicate_approval_rejected [OF h1 h2, of 99] h1 h2 h3 h4
  show ?thesis by simp
qed

subsection \<open>A second allocation for the same agent\<close>

text \<open>
  Claim C8, as amended. When the allocation table already has an entry for the agent id,
  \<^verbatim>\<open>allocate_agent_budget\<close> for that id aborts in every case and the transaction leaves the
  state, the existing allocation included, as it was. The abort is the one of the first
  step that fails, in the order of the source: \<^verbatim>\<open>E_NOT_AUTHORIZED\<close> when the admin
  capability does not bind to the treasury; \<^verbatim>\<open>E_EMERGENCY_MODE_ACTIVE\<close> when the treasury is
  frozen; an arithmetic abort when the window roll underflows (the time is before the last
  reset); with the counter as the roll leaves it (0 after 24 hours, unchanged before), an
  arithmetic abort when counter plus amount overflows and \<^verbatim>\<open>E_DAILY_LIMIT_EXCEEDED\<close> when it
  exceeds the daily limit; an arithmetic abort when time plus duration overflows; and the
  abort of \<^verbatim>\<open>table::add\<close> on a key that is present exactly when none of these fails.
\<close>

theorem duplicate_allocation_rejected:
  assumes "agent_allocations (treasury w) agent_id = Some al"
  shows
    "allocate_agent_budget w agent_id amount lvl dur admin_cap now
       = Inl (if t_id (treasury w) \<noteq> ac_treasury_id admin_cap then Abort E_NOT_AUTHORIZED
              else if emergency_mode (treasury w) then Abort E_EMERGENCY_MODE_ACTIVE
              else if now < last_reset (treasury w) then ArithmeticError
              else if add_overflows
                        (if now - last_reset (treasury w) \<ge> one_day_ms
                         then 0 else daily_spent (treasury w)) amount
                   then ArithmeticError
              else if \<not> (if now - last_reset (treasury w) \<ge> one_day_ms
                         then 0 else daily_spent (treasury w)) + amount
                          \<le> daily_limit (treasury w)
                   then Abort E_DAILY_LIMIT_EXCEEDED
              else if add_overflows now dur then ArithmeticError
              else FieldAlreadyExists) \<and>
     (allocate_agent_budget w agent_id amount lvl dur admin_cap now = Inl FieldAlreadyExists
        \<longleftrightarrow>
          t_id (treasury w) = ac_treasury_id admin_cap \<and>
          \<not> emergency_mode (treasury w) \<and>
          \<not> now < last_reset (treasury w) \<and>
          \<not> add_overflows
                (if now - last_reset (treasury w) \<ge> one_day_ms
                 then 0 else daily_spent (treasury w)) amount \<and>
          (if now - last_reset (treasury w) \<ge> one_day_ms
           then 0 else daily_spent (treasury w)) + amount \<le> daily_limit (treasury w) \<and>
          \<not> add_overflows now dur) \<and>
     (\<exists>e. allocate_agent_budget w agent_id amount lvl dur admin_cap now = Inl e) \<and>
     fst (transact w (AllocateAgentBudget agent_id amount lvl dur admin_cap now)) = w \<and>
     agent_allocations
       (treasury (fst (transact w (AllocateAgentBudget agent_id amount lvl dur admin_cap now))))
       agent_id = Some al \<and>
     (t_id (treasury w) = ac_treasury_id admin_cap \<and>
      \<not> emergency_mode (treasury w) \<and>
      update_daily_spending (treasury w) now = Inr t \<and>
      \<not> add_overflows (daily_spent t) amount \<and>
      daily_spent t + amount \<le> daily_limit t \<and>
      \<not> add_overflows now dur \<longrightarrow>
        allocate_agent_budget w agent_id amount lvl dur admin_cap now
          = Inl FieldAlreadyExists)"
proof -
  have exact: "allocate_agent_budget w agent_id amount lvl dur admin_cap now
       = Inl (if t_id (treasury w) \<noteq> ac_treasury_id admin_cap then Abort E_NOT_AUTHORIZED
              else if emergency_mode (treasury w) then Abort E_EMERGENCY_MODE_ACTIVE
              else if now < last_reset (treasury w) then ArithmeticError
              else if add_overflows
                        (if now - last_reset (treasury w) \<ge> one_day_ms
                         then 0 else daily_spent (treasury w)) amount
                   then ArithmeticError
              else if \<not> (if now - last_reset (treasury w) \<ge> one_day_ms
                         then 0 else daily_spent (treasury w)) + amount
                          \<le> daily_limit (treasury w)
                   then Abort E_DAILY_LIMIT_EXCEEDED
              else if add_overflows now dur then ArithmeticError
              else FieldAlreadyExists)"
    using assms
    by (simp add: allocate_agent_budget_def update_daily_spending_def Let_def)
  have iff: "allocate_agent_budget w agent_id amount lvl dur admin_cap now
               = Inl FieldAlreadyExists
        \<longleftrightarrow>
          t_id (treasury w) = ac_treasury_id admin_cap \<and>
          \<not> emergency_mode (treasury w) \<and>
          \<not> now < last_reset (treasury w) \<and>
          \<not> add_overflows
                (if now - last_reset (treasury w) \<ge> one_day_ms
                 then 0 else daily_spent (treasury w)) amount \<and>
          (if now - last_reset (treasury w) \<ge> one_day_ms
           then 0 else daily_spent (treasury w)) + amount \<le> daily_limit (treasury w) \<and>
          \<not> add_overflows now dur"
    unfolding exact by (simp split: if_splits)
  have kept: "agent_allocations t' agent_id = Some al"
    if "update_daily_spending (treasury w) now = Inr t'" for t'
    using that assms by (auto simp: update_daily_spending_def split: if_splits)
  have fails: "\<exists>e. allocate_agent_budget w agent_id amount lvl dur admin_cap now = Inl e"
    using exact by blast
  then have same:
    "fst (transact w (AllocateAgentBudget agent_id amount lvl dur admin_cap now)) = w"
    by (auto simp: transact_def)
  have duplicate: "t_id (treasury w) = ac_treasury_id admin_cap \<and>
      \<not> emergency_mode (treasury w) \<and>
      update_daily_spending (treasury w) now = Inr t \<and>
      \<not> add_overflows (daily_spent t) amount \<and>
      daily_spent t + amount \<le> daily_limit t \<and>
      \<not> add_overflows now dur \<longrightarrow>
        allocate_agent_budget w agent_id amount lvl dur admin_cap now
          = Inl FieldAlreadyExists"
    using kept [of t] by (simp add: allocate_agent_budget_def Let_def)
  from exact iff fails same duplicate assms show ?thesis by simp
qed

text \<open>
  Claim C8 as stated fails on the error kind. Agent A has an allocation, 155000 of the daily
  limit of 1000000 are used, and a second allocation of 900000 for A aborts with
  \<^verbatim>\<open>E_DAILY_LIMIT_EXCEEDED\<close>: the limit is asserted before the insertion is tried.
\<close>

theorem duplicate_allocation_counterexample:
  "agent_allocations (treasury scenario_world) ''A'' \<noteq> None \<and>
   allocate_agent_budget scenario_world ''A'' 900000 1 3600000 scenario_admin_cap 5
     = Inl (Abort E_DAILY_LIMIT_EXCEEDED)"
  by (simp add: scenario_defs eval_defs)

theorem duplicate_allocation_rejected_witness:
  "agent_allocations (treasury scenario_world) ''A''
     = Some \<lparr> al_agent_id = ''A'', allocated_amount = 5000, spent_amount = 0,
               security_level = 1, al_created_at = 0, al_expires_at = 3600000 \<rparr> \<and>
   t_id (treasury scenario_world) = ac_treasury_id scenario_admin_cap \<and>
   \<not> emergency_mode (treasury scenario_world) \<and>
   update_daily_spending (treasury scenario_world) 5 = Inr (treasury scenario_world) \<and>
   \<not> add_overflows (daily_spent (treasury scenario_world)) 5000 \<and>
   daily_spent (treasury scenario_world) + 5000 \<le> daily_limit (treasury scenario_world) \<and>
   \<not> add_overflows 5 3600000 \<and>
   allocate_agent_budget scenario_world ''A'' 5000 1 3600000 scenario_admin_cap 5
     = Inl FieldAlreadyExists \<and>
   fst (transact scenario_world
          (AllocateAgentBudget ''A'' 5000 1 3600000 scenario_admin_cap 5)) = scenario_world \<and>
   allocate_agent_budget scenario_world ''A'' 900000 1 3600000 scenario_admin_cap 5
     = Inl (Abort E_DAILY_LIMIT_EXCEEDED) \<and>
   allocate_agent_budget scenario_world ''A'' 5000 1 3600000 \<lparr> ac_treasury_id = 8 \<rparr> 5
     = Inl (Abort E_NOT_AUTHORIZED) \<and>
   allocate_agent_budget scenario_frozen ''A'' 5000 1 3600000 scenario_admin_cap 5
     = Inl (Abort E_EMERGENCY_MODE_ACTIVE)"
proof -
  have h: "agent_allocations (treasury scenario_world) ''A''
     = Some \<lparr> al_agent_id = ''A'', allocated_amount = 5000, spent_amount = 0,
               security_level = 1, al_created_at = 0, al_expires_at = 3600000 \<rparr>"
    by (simp add: scenario_defs)
  have hf: "agent_allocations (treasury scenario_frozen) ''A''
     = Some \<lparr> al_agent_id = ''A'', allocated_amount = 5000, spent_amount = 0,
               security_level = 1, al_created_at = 0, al_expires_at = 3600000 \<rparr>"
    by (simp add: scenario_defs)
  have g: "t_id (treasury scenario_world) = ac_treasury_id scenario_admin_cap"
    "\<not> emergency_mode (treasury scenario_world)"
    "update_daily_spending (treasury scenario_world) 5 = Inr (treasury scenario_world)"
    "\<not> add_overflows (daily_spent (treasury scenario_world)) 5000"
    "daily_spent (treasury scenario_world) + 5000 \<le> daily_limit (treasury scenario_world)"
    "\<not> add_overflows 5 3600000"
    by (simp_all add: scenario_defs update_daily_spending_def add_overflows_def one_day_ms_def)
  have v: "\<not> (5 :: u64) < last_reset (treasury scenario_world)"
    "\<not> (5 :: u64) - last_reset (treasury scenario_world) \<ge> one_day_ms"
    "\<not> add_overflows (daily_spent (treasury scenario_world)) 900000"
    "\<not> daily_spent (treasury scenario_world) + 900000 \<le> daily_limit (treasury scenario_world)"
    "t_id (treasury scenario_world) \<noteq> ac_treasury_id \<lparr> ac_treasury_id = 8 \<rparr>"
    "t_id (treasury scenario_frozen) = ac_treasury_id scenario_admin_cap"
    "emergency_mode (treasury scenario_frozen)"
    by (simp_all add: scenario_defs add_overflows_def one_day_ms_def)
  from duplicate_allocation_rejected
         [OF h, of 5000 1 3600000 scenario_admin_cap 5 "treasury scenario_world"]
       duplicate_allocation_rejected
         [OF h, of 900000 1 3600000 scenario_admin_cap 5 "treasury scenario_world"]
       duplicate_allocation_rejected
         [OF h, of 5000 1 3600000 "\<lparr> ac_treasury_id = 8 \<rparr>" 5 "treasury scenario_world"]
       duplicate_allocation_rejected
         [OF hf, of 5000 1 3600000 scenario_admin_cap 5 "treasury scenario_frozen"]
       h g v
  show ?thesis by simp
qed

subsection \<open>The expiry of a pending approval\<close>

lemma transact_erase_expiry:
  "snd (transact (erase_expiry w) c) = snd (transact w c) \<and>
   erase_expiry (fst (transact (erase_expiry w) c)) = erase_expiry (fst (transact w c))"
proof (cases c)
  case (Deposit payment)
  then show ?thesis
    by (simp add: transact_def deposit_def Let_def erase_expiry_def option.map_comp comp_def)
next
  case (AllocateAgentBudget agent_id amount lvl dur cap now)
  then show ?thesis
    by (simp add: transact_def allocate_agent_budget_def update_daily_spending_def Let_def
                  erase_expiry_def option.map_comp comp_def)
next
  case (AgentTransfer cap recipient amount memo now)
  then show ?thesis
    by (auto simp: transact_def agent_transfer_def create_pending_approval_def
                   execute_transfer_def Let_def erase_expiry_def option.map_comp comp_def
                   fun_eq_iff
             split: option.splits)
next
  case (ApproveTransaction approval_id approver)
  then show ?thesis
    by (auto simp: transact_def approve_transaction_def execute_transfer_def Let_def
                   erase_expiry_def option.map_comp comp_def fun_eq_iff
             split: option.splits)
next
  case (EmergencyStop reason cap sender)
  then show ?thesis
    by (simp add: transact_def emergency_stop_def Let_def erase_expiry_def
                  option.map_comp comp_def)
next
  case (DeactivateEmergency cap)
  then show ?thesis
    by (simp add: transact_def deactivate_emergency_def Let_def erase_expiry_def
                  option.map_comp comp_def)
qed

text \<open>
  Claim C9. No call reads the \<^verbatim>\<open>expires_at\<close> field of a pending approval. From two states
  that differ at most in these fields, every call (with the same arguments) gives the same
  result to the caller, abort or return value, and leaves two states that again differ at
  most in these fields. In particular, whatever value the expiry of a pending approval is
  replaced with, \<^verbatim>\<open>approve_transaction\<close>, which has no clock argument, gives the same result.
\<close>

theorem expiry_never_read:
  "(same_up_to_expiry w1 w2 \<longrightarrow>
      snd (transact w1 c) = snd (transact w2 c) \<and>
      same_up_to_expiry (fst (transact w1 c)) (fst (transact w2 c))) \<and>
   (pending_approvals (treasury w) approval_id = Some p \<longrightarrow>
      same_up_to_expiry
        (w\<lparr> treasury := (treasury w)\<lparr> pending_approvals :=
              (pending_approvals (treasury w))(approval_id \<mapsto> p\<lparr> pa_expires_at := e \<rparr>) \<rparr> \<rparr>)
        w \<and>
      snd (transact
             (w\<lparr> treasury := (treasury w)\<lparr> pending_approvals :=
                   (pending_approvals (treasury w))(approval_id \<mapsto> p\<lparr> pa_expires_at := e \<rparr>) \<rparr> \<rparr>)
             (ApproveTransaction approval_id approver))
        = snd (transact w (ApproveTransaction approval_id approver)))"
proof -
  have two_runs: "snd (transact u c') = snd (transact v c') \<and>
      same_up_to_expiry (fst (transact u c')) (fst (transact v c'))"
    if "same_up_to_expiry u v" for u v c'
  proof -
    from that have eq: "erase_expiry u = erase_expiry v"
      by (simp add: same_up_to_expiry_def)
    have "snd (transact u c') = snd (transact (erase_expiry u) c')"
      using transact_erase_expiry [of u c'] by simp
    also have "\<dots> = snd (transact v c')"
      using transact_erase_expiry [of v c'] eq by simp
    finally have results: "snd (transact u c') = snd (transact v c')" .
    have "erase_expiry (fst (transact u c'))
            = erase_expiry (fst (transact (erase_expiry u) c'))"
      using transact_erase_expiry [of u c'] by simp
    also have "\<dots> = erase_expiry (fst (transact v c'))"
      using transact_erase_expiry [of v c'] eq by simp
    finally have "same_up_to_expiry (fst (transact u c')) (fst (transact v c'))"
      by (simp add: same_up_to_expiry_def)
    with results show ?thesis by simp
  qed
  have replaced: "same_up_to_expiry
        (w\<lparr> treasury := (treasury w)\<lparr> pending_approvals :=
              (pending_approvals (treasury w))(approval_id \<mapsto> p\<lparr> pa_expires_at := e \<rparr>) \<rparr> \<rparr>)
        w"
    if "pending_approvals (treasury w) approval_id = Some p"
    using that by (auto simp: same_up_to_expiry_def erase_expiry_def fun_eq_iff)
  from two_runs [of w1 w2 c] two_runs [OF replaced, of "ApproveTransaction approval_id approver"]
       replaced
  show ?thesis by blast
qed

theorem expiry_never_read_witness:
  "same_up_to_expiry scenario_stale scenario_funded \<and>
   pending_approvals (treasury scenario_funded) 0 = Some scenario_approval \<and>
   map_option pa_expires_at (pending_approvals (treasury scenario_stale) 0) = Some 0 \<and>
   snd (transact scenario_funded (ApproveTransaction 0 2)) = Inr RetUnit \<and>
   snd (transact scenario_stale (ApproveTransaction 0 2)) = Inr RetUnit \<and>
   balance (balance_obj (fst (transact scenario_stale (ApproveTransaction 0 2)))) = 80000 \<and>
   pending_approvals (treasury (fst (transact scenario_stale (ApproveTransaction 0 2)))) 0
     = None \<and>
   same_up_to_expiry (fst (transact scenario_stale (ApproveTransaction 0 2)))
                     (fst (transact scenario_funded (ApproveTransaction 0 2)))"
proof -
  have h1: "pending_approvals (treasury scenario_funded) 0 = Some scenario_approval"
    by (simp add: scenario_defs)
  have stale: "scenario_stale = scenario_funded
       \<lparr> treasury := (treasury scenario_funded)
            \<lparr> pending_approvals :=
                (pending_approvals (treasury scenario_funded))
                  (0 \<mapsto> scenario_approval\<lparr> pa_expires_at := 0 \<rparr>) \<rparr> \<rparr>"
    by (simp add: scenario_stale_def)
  have h2: "map_option pa_expires_at (pending_approvals (treasury scenario_stale) 0) = Some 0"
    by (simp add: scenario_stale_def)
  have h3: "snd (transact scenario_funded (ApproveTransaction 0 2)) = Inr RetUnit"
    by (simp add: scenario_defs eval_defs word_le_nat_alt)
  have h4:
    "balance (balance_obj (fst (transact scenario_stale (ApproveTransaction 0 2)))) = 80000"
    "pending_approvals (treasury (fst (transact scenario_stale (ApproveTransaction 0 2)))) 0
       = None"
    by (simp_all add: scenario_stale_def scenario_defs eval_defs word_le_nat_alt)
  from expiry_never_read [of scenario_stale scenario_funded "ApproveTransaction 0 2"
         scenario_funded 0 scenario_approval 0 2] h1 h2 h3 h4
  show ?thesis unfolding stale [symmetric] by simp
qed

subsection \<open>The counter value is an unused id\<close>

lemma less_checked_succ:
  assumes "\<not> add_overflows c 1" and "k \<le> c"
  shows "k < c + 1"
proof -
  from assms(1) have "unat (c + 1) = unat c + 1"
    using unat_checked_add [of c 1] by simp
  with assms(2) show ?thesis
    by (simp add: word_less_nat_alt word_le_nat_alt)
qed

lemma ids_below_counter_step:
  assumes "ids_below_counter (treasury w)"
  shows "ids_below_counter (treasury (fst (transact w c)))"
proof (cases c)
  case (Deposit payment)
  with assms show ?thesis
    by (simp add: ids_below_counter_def transact_def deposit_def Let_def)
next
  case (AllocateAgentBudget agent_id amount lvl dur cap now)
  with assms show ?thesis
    by (auto simp: ids_below_counter_def transact_def allocate_agent_budget_def
                   update_daily_spending_def Let_def
             split: if_splits sum.splits)
next
  case (AgentTransfer cap recipient amount memo now)
  with assms show ?thesis
    by (auto simp: ids_below_counter_def transact_def agent_transfer_def
                   create_pending_approval_def execute_transfer_def Let_def
                   less_checked_succ
             split: if_splits sum.splits option.splits)
next
  case (ApproveTransaction approval_id approver)
  with assms show ?thesis
    by (auto simp: ids_below_counter_def transact_def approve_transaction_def
                   execute_transfer_def Let_def
             split: if_splits sum.splits option.splits)
next
  case (EmergencyStop reason cap sender)
  with assms show ?thesis
    by (simp add: ids_below_counter_def transact_def emergency_stop_def Let_def)
next
  case (DeactivateEmergency cap)
  with assms show ?thesis
    by (simp add: ids_below_counter_def transact_def deactivate_emergency_def Let_def)
qed

lemma ids_below_counter_run:
  "ids_below_counter (treasury w) \<Longrightarrow> ids_below_counter (treasury (run w cs))"
  by (induction cs arbitrary: w) (simp_all add: ids_below_counter_step)

text \<open>
  In every state reached from \<^verbatim>\<open>initialize_treasury\<close> the pending table has no entry under
  the current counter value: the insertion of \<^verbatim>\<open>create_pending_approval\<close> cannot hit an
  existing key there.
\<close>

lemma reachable_counter_unused:
  assumes "initialize_treasury adm cold hot cold_thr hot_thr limit signers threshold now uid
             = Inr (cap, w0)"
  shows "pending_approvals (treasury (run w0 cs)) (approval_counter (treasury (run w0 cs)))
           = None"
proof -
  have "pending_approvals (treasury w0) = Map.empty"
    using assms by (rule initialize_treasury_fresh)
  then have "ids_below_counter (treasury w0)"
    by (simp add: ids_below_counter_def)
  then have "ids_below_counter (treasury (run w0 cs))"
    by (rule ids_below_counter_run)
  then show ?thesis
    by (cases "pending_approvals (treasury (run w0 cs))
                 (approval_counter (treasury (run w0 cs)))")
       (auto simp: ids_below_counter_def)
qed

subsection \<open>Where the balance is checked\<close>

text \<open>
  Claim C10, as amended. On an unfrozen treasury, when the six assertions of
  \<^verbatim>\<open>agent_transfer\<close> pass, the amount is at least the approval threshold, the counter
  increment and the expiry addition fit in \<^verbatim>\<open>u64\<close> and the counter value is an unused id,
  the call returns the id of a new pending approval whatever the balance is, below the
  amount included, and leaves the balance as it was. The balance is asserted where the
  transfer executes: below the threshold, and in \<^verbatim>\<open>approve_transaction\<close> when the required
  number of signatures is reached; there a balance below the amount makes the call abort
  with \<^verbatim>\<open>E_INSUFFICIENT_BALANCE\<close>.
\<close>

theorem pending_ignores_balance:
  assumes "transfer_checks_pass w agent_cap amount now"
  shows
    "(amount \<ge> cold_threshold (treasury w) \<and>
      \<not> add_overflows (approval_counter (treasury w)) 1 \<and>
      \<not> add_overflows now one_day_ms \<and>
      pending_approvals (treasury w) (approval_counter (treasury w)) = None \<longrightarrow>
        (\<exists>w'. agent_transfer (w\<lparr> balance_obj := (balance_obj w)\<lparr> balance := b \<rparr> \<rparr>)
                 agent_cap recipient amount memo now
                 = Inr (Some (approval_counter (treasury w)), w') \<and>
              balance (balance_obj w') = b \<and>
              sent w' = sent w \<and>
              pending_approvals (treasury w') (approval_counter (treasury w)) \<noteq> None)) \<and>
     (\<not> amount \<ge> cold_threshold (treasury w) \<and> balance (balance_obj w) < amount \<longrightarrow>
        agent_transfer w agent_cap recipient amount memo now
          = Inl (Abort E_INSUFFICIENT_BALANCE)) \<and>
     (approve_checks_pass w approval_id approver \<and>
      pending_approvals (treasury w) approval_id = Some p \<and>
      length (approvals p) + 1 \<le> 255 \<and>
      unat (required_approvals p) \<le> length (approvals p) + 1 \<and>
      balance (balance_obj w) < pa_amount p \<longrightarrow>
        approve_transaction w approval_id approver = Inl (Abort E_INSUFFICIENT_BALANCE))"
proof -
  from assms obtain al where
    al: "agent_allocations (treasury w) (cap_agent_id agent_cap) = Some al"
    and no: "\<not> add_overflows (spent_amount al) amount"
    and le: "spent_amount al + amount \<le> allocated_amount al"
    by (auto simp: transfer_checks_pass_def split: option.splits)
  from assms have pre:
    "t_id (treasury w) = cap_treasury_id agent_cap"
    "t_id (treasury w) = tb_treasury_id (balance_obj w)"
    "\<not> emergency_mode (treasury w)"
    "amount \<le> max_amount agent_cap"
    "now \<le> cap_expires_at agent_cap"
    by (auto simp: transfer_checks_pass_def)
  have opened: "amount \<ge> cold_threshold (treasury w) \<and>
      \<not> add_overflows (approval_counter (treasury w)) 1 \<and>
      \<not> add_overflows now one_day_ms \<and>
      pending_approvals (treasury w) (approval_counter (treasury w)) = None \<longrightarrow>
        (\<exists>w'. agent_transfer (w\<lparr> balance_obj := (balance_obj w)\<lparr> balance := b \<rparr> \<rparr>)
                 agent_cap recipient amount memo now
                 = Inr (Some (approval_counter (treasury w)), w') \<and>
              balance (balance_obj w') = b \<and>
              sent w' = sent w \<and>
              pending_approvals (treasury w') (approval_counter (treasury w)) \<noteq> None)"
    using pre al no le
    by (simp add: agent_transfer_def create_pending_approval_def Let_def)
  have immediate: "\<not> amount \<ge> cold_threshold (treasury w) \<and>
        balance (balance_obj w) < amount \<longrightarrow>
        agent_transfer w agent_cap recipient amount memo now
          = Inl (Abort E_INSUFFICIENT_BALANCE)"
    using pre al no le
    by (auto simp: agent_transfer_def execute_transfer_def Let_def)
  have quorum: "approve_transaction w approval_id approver
                  = Inl (Abort E_INSUFFICIENT_BALANCE)"
    if checks: "approve_checks_pass w approval_id approver"
      and p: "pending_approvals (treasury w) approval_id = Some p"
      and fits: "length (approvals p) + 1 \<le> 255"
      and enough: "unat (required_approvals p) \<le> length (approvals p) + 1"
      and short: "balance (balance_obj w) < pa_amount p"
  proof -
    from checks p have ok:
      "approver \<in> set (multisig_signers (treasury w))"
      "approver \<notin> set (approvals p)"
      by (auto simp: approve_checks_pass_def)
    from fits have no_cast_abort: "\<not> 255 < Suc (length (approvals p))"
      by simp
    from fits enough have reached:
      "(of_nat (Suc (length (approvals p))) :: u8) \<ge> required_approvals p"
      using cast_u8_ge [of "Suc (length (approvals p))" "required_approvals p"] by simp
    show ?thesis
      using pre(3) ok p no_cast_abort reached short
      by (auto simp: approve_transaction_def execute_transfer_def Let_def
               simp del: of_nat_Suc)
  qed
  from opened immediate quorum show ?thesis by blast
qed

text \<open>
  Claim C10 as stated fails on a frozen treasury: the capability of agent B binds to the
  treasury and covers the amount, it has not expired, B has an allocation with budget
  left and 120000 is above the threshold, but the call aborts with
  \<^verbatim>\<open>E_EMERGENCY_MODE_ACTIVE\<close> and returns no id.
\<close>

theorem pending_frozen_counterexample:
  "t_id (treasury scenario_frozen) = cap_treasury_id scenario_cap_B \<and>
   120000 \<le> max_amount scenario_cap_B \<and>
   2000 \<le> cap_expires_at scenario_cap_B \<and>
   map_option (\<lambda>al. spent_amount al + 120000 \<le> allocated_amount al)
     (agent_allocations (treasury scenario_frozen) (cap_agent_id scenario_cap_B)) = Some True \<and>
   120000 \<ge> cold_threshold (treasury scenario_frozen) \<and>
   agent_transfer scenario_frozen scenario_cap_B 20 120000 ''rent'' 2000
     = Inl (Abort E_EMERGENCY_MODE_ACTIVE)"
  by (simp add: scenario_defs eval_defs)

theorem pending_ignores_balance_witness:
  "transfer_checks_pass scenario_world scenario_cap_B 120000 1000 \<and>
   120000 \<ge> cold_threshold (treasury scenario_world) \<and>
   \<not> add_overflows (approval_counter (treasury scenario_world)) 1 \<and>
   \<not> add_overflows 1000 one_day_ms \<and>
   pending_approvals (treasury scenario_world) (approval_counter (treasury scenario_world))
     = None \<and>
   (\<exists>w'. agent_transfer
           (scenario_world\<lparr> balance_obj := (balance_obj scenario_world)\<lparr> balance := 3 \<rparr> \<rparr>)
           scenario_cap_B 20 120000 ''rent'' 1000 = Inr (Some 0, w') \<and>
         balance (balance_obj w') = 3 \<and>
         pending_approvals (treasury w') 0 \<noteq> None) \<and>
   transfer_checks_pass scenario_world scenario_cap_B 60000 1000 \<and>
   \<not> 60000 \<ge> cold_threshold (treasury scenario_world) \<and>
   balance (balance_obj scenario_world) < 60000 \<and>
   agent_transfer scenario_world scenario_cap_B 20 60000 ''rent'' 1000
     = Inl (Abort E_INSUFFICIENT_BALANCE) \<and>
   transfer_checks_pass scenario_pending scenario_cap_B 60000 1000 \<and>
   approve_checks_pass scenario_pending 0 2 \<and>
   pending_approvals (treasury scenario_pending) 0 = Some scenario_approval \<and>
   length (approvals scenario_approval) + 1 \<le> 255 \<and>
   unat (required_approvals scenario_approval) \<le> length (approvals scenario_approval) + 1 \<and>
   balance (balance_obj scenario_pending) < pa_amount scenario_approval \<and>
   approve_transaction scenario_pending 0 2 = Inl (Abort E_INSUFFICIENT_BALANCE)"
proof -
  have h1: "transfer_checks_pass scenario_world scenario_cap_B 120000 1000"
    by (simp add: transfer_checks_pass_def scenario_defs add_overflows_def)
  have g1: "120000 \<ge> cold_threshold (treasury scenario_world) \<and>
      \<not> add_overflows (approval_counter (treasury scenario_world)) 1 \<and>
      \<not> add_overflows 1000 one_day_ms \<and>
      pending_approvals (treasury scenario_world) (approval_counter (treasury scenario_world))
        = None"
    by (simp add: scenario_defs add_overflows_def one_day_ms_def)
  have c0: "approval_counter (treasury scenario_world) = 0"
    by (simp add: scenario_defs)
  from pending_ignores_balance [OF h1, of 3 20 "''rent''"] g1
  have e1: "\<exists>w'. agent_transfer
           (scenario_world\<lparr> balance_obj := (balance_obj scenario_world)\<lparr> balance := 3 \<rparr> \<rparr>)
           scenario_cap_B 20 120000 ''rent'' 1000 = Inr (Some 0, w') \<and>
         balance (balance_obj w') = 3 \<and>
         pending_approvals (treasury w') 0 \<noteq> None"
    unfolding c0 by blast
  have h2: "transfer_checks_pass scenario_world scenario_cap_B 60000 1000"
    by (simp add: transfer_checks_pass_def scenario_defs add_overflows_def)
  have g2: "\<not> 60000 \<ge> cold_threshold (treasury scenario_world) \<and>
            balance (balance_obj scenario_world) < 60000"
    by (simp add: scenario_defs)
  from pending_ignores_balance [OF h2, of _ 20 "''rent''"] g2
  have e2: "agent_transfer scenario_world scenario_cap_B 20 60000 ''rent'' 1000
              = Inl (Abort E_INSUFFICIENT_BALANCE)"
    by blast
  have h3: "transfer_checks_pass scenario_pending scenario_cap_B 60000 1000"
    by (simp add: transfer_checks_pass_def scenario_defs add_overflows_def)
  have g3: "approve_checks_pass scenario_pending 0 2 \<and>
      pending_approvals (treasury scenario_pending) 0 = Some scenario_approval \<and>
      length (approvals scenario_approval) + 1 \<le> 255 \<and>
      unat (required_approvals scenario_approval)
        \<le> length (approvals scenario_approval) + 1 \<and>
      balance (balance_obj scenario_pending) < pa_amount scenario_approval"
    by (simp add: approve_checks_pass_def scenario_defs)
  from pending_ignores_balance [OF h3, of _ _ _ 0 2 scenario_approval] g3
  have e3: "approve_transaction scenario_pending 0 2 = Inl (Abort E_INSUFFICIENT_BALANCE)"
    by blast
  from h1 g1 e1 h2 g2 e2 h3 g3 e3 show ?thesis by blast
qed

end
